theory Spec2Isabelle
  imports Main "HOL-Library.Word" "HOL-Library.AList"
begin

section \<open>Python values and errors\<close>

text \<open>
  The module \<^verbatim>\<open>pyteomics/mzml.py\<close> is modelled with the semantics of Python 2, the
  interpreter it was written for: a \<^verbatim>\<open>str\<close> is a sequence of bytes, so both the base64
  text and the decoded buffer are values of \<^typ>\<open>string\<close>. Every exception the code can
  raise is a value of \<open>error\<close>; a computation that may raise returns \<open>error + 'a\<close> with
  \<open>Inl\<close> for the exception. \<open>SchemaError\<close> and \<open>DecodeError\<close> are the two error names of
  the specification; no equation below produces either of them.
\<close>

datatype error = KeyError | TypeError | ValueError | AttributeError | UnboundLocalError
  | IOError | UnicodeError | ZlibError | XMLSyntaxError | SchemaError | DecodeError

type_synonym bytes = string

section \<open>Base64 and the numeric buffer\<close>

text \<open>
  \<^verbatim>\<open>base64.b64decode\<close> calls \<^verbatim>\<open>binascii.a2b_base64\<close> and turns its
  \<^verbatim>\<open>binascii.Error\<close> into a \<^verbatim>\<open>TypeError\<close>. The decoder is the lenient loop of
  CPython: bytes above 127, carriage return, line feed, space and every character outside
  the alphabet are skipped; a pad character ends the input when it stands at position 3
  of a quad, or at position 2 and is followed by a second pad; six bits are shifted in per
  character and a byte is emitted whenever eight are available.
\<close>

definition table_a2b_base64 :: "char \<Rightarrow> nat option" where
  "table_a2b_base64 c =
     (let n = (of_char c :: nat) in
      if 65 \<le> n \<and> n \<le> 90 then Some (n - 65)
      else if 97 \<le> n \<and> n \<le> 122 then Some (n - 97 + 26)
      else if 48 \<le> n \<and> n \<le> 57 then Some (n - 48 + 52)
      else if n = 43 then Some 62
      else if n = 47 then Some 63
      else if n = 61 then Some 0
      else None)"

fun binascii_find_valid :: "string \<Rightarrow> nat \<Rightarrow> nat option" where
  "binascii_find_valid [] num = None"
| "binascii_find_valid (c # s) num =
     (if (of_char c :: nat) \<le> 127 \<and> table_a2b_base64 c \<noteq> None
      then (if num = 0 then Some (of_char c) else binascii_find_valid s (num - 1))
      else binascii_find_valid s num)"

fun a2b_base64 :: "string \<Rightarrow> nat \<Rightarrow> nat \<Rightarrow> nat \<Rightarrow> bytes \<Rightarrow> error + bytes" where
  "a2b_base64 [] quad_pos leftchar leftbits bin_data =
     (if leftbits \<noteq> 0 then Inl TypeError else Inr bin_data)"
| "a2b_base64 (c # rest) quad_pos leftchar leftbits bin_data =
     (let this_ch = (of_char c :: nat) in
      if this_ch > 127 \<or> this_ch = 13 \<or> this_ch = 10 \<or> this_ch = 32
      then a2b_base64 rest quad_pos leftchar leftbits bin_data
      else if this_ch = 61
      then (if quad_pos < 2 \<or>
               (quad_pos = 2 \<and> binascii_find_valid (c # rest) 1 \<noteq> Some 61)
            then a2b_base64 rest quad_pos leftchar leftbits bin_data
            else Inr bin_data)
      else (case table_a2b_base64 c of
              None \<Rightarrow> a2b_base64 rest quad_pos leftchar leftbits bin_data
            | Some v \<Rightarrow>
                (if leftbits + 6 \<ge> 8
                 then a2b_base64 rest ((quad_pos + 1) mod 4)
                        ((leftchar * 64 + v) mod 2 ^ (leftbits + 6 - 8)) (leftbits + 6 - 8)
                        (bin_data @ [char_of ((leftchar * 64 + v) div 2 ^ (leftbits + 6 - 8) mod 256)])
                 else a2b_base64 rest ((quad_pos + 1) mod 4) (leftchar * 64 + v)
                        (leftbits + 6) bin_data)))"

text \<open>
  \<^verbatim>\<open>source.encode('ascii')\<close> precedes the decoding: a \<^verbatim>\<open>str\<close> holding a byte above 127
  makes it raise a \<^verbatim>\<open>UnicodeError\<close>.
\<close>

definition encode_ascii :: "string \<Rightarrow> error + bytes" where
  "encode_ascii s = (if list_all (\<lambda>c. (of_char c :: nat) < 128) s then Inr s else Inl UnicodeError)"

definition b64decode :: "bytes \<Rightarrow> error + bytes" where
  "b64decode s = a2b_base64 s 0 0 0 []"

text \<open>
  A numpy array is its element type and its elements. A float is kept as its IEEE 754
  bit pattern, a 32-bit or 64-bit word: \<^verbatim>\<open>np.frombuffer\<close> copies bits and never
  computes with them. The type codes \<^verbatim>\<open>'f'\<close> and \<^verbatim>\<open>'d'\<close> of the source carry no
  byte-order mark, so numpy reads them in the byte order of the host; the model is that
  of a little-endian host (x86-64, AArch64), where the first byte of an element is its
  least significant one.
\<close>

datatype dtype = Float32 | Float64

datatype ndarray = F32Array "32 word list" | F64Array "64 word list"

definition empty_array :: "dtype \<Rightarrow> ndarray" where
  "empty_array dt = (case dt of Float32 \<Rightarrow> F32Array [] | Float64 \<Rightarrow> F64Array [])"

fun array_dtype :: "ndarray \<Rightarrow> dtype" where
  "array_dtype (F32Array xs) = Float32"
| "array_dtype (F64Array xs) = Float64"

fun array_size :: "ndarray \<Rightarrow> nat" where
  "array_size (F32Array xs) = length xs"
| "array_size (F64Array xs) = length xs"

fun itemsize :: "dtype \<Rightarrow> nat" where
  "itemsize Float32 = 4"
| "itemsize Float64 = 8"

fun le_nat :: "bytes \<Rightarrow> nat" where
  "le_nat [] = 0"
| "le_nat (c # cs) = of_char c + 256 * le_nat cs"

fun items :: "nat \<Rightarrow> nat \<Rightarrow> bytes \<Rightarrow> bytes list" where
  "items 0 w buf = []"
| "items (Suc n) w buf = take w buf # items n w (drop w buf)"

definition frombuffer :: "bytes \<Rightarrow> dtype \<Rightarrow> error + ndarray" where
  "frombuffer buf dt =
     (if length buf mod itemsize dt \<noteq> 0 then Inl ValueError
      else Inr (case dt of
                  Float32 \<Rightarrow> F32Array (map (\<lambda>b. word_of_nat (le_nat b)) (items (length buf div 4) 4 buf))
                | Float64 \<Rightarrow> F64Array (map (\<lambda>b. word_of_nat (le_nat b)) (items (length buf div 8) 8 buf))))"

text \<open>
  \<^verbatim>\<open>zlib.decompress\<close> is the inflate routine of the zlib library. It is a parameter of
  the decoder: a function from the compressed bytes to the inflated bytes or an error.
\<close>

definition decode_base64_data_array ::
  "(bytes \<Rightarrow> error + bytes) \<Rightarrow> string \<Rightarrow> dtype \<Rightarrow> bool \<Rightarrow> error + ndarray" where
  "decode_base64_data_array decompress source dt is_compressed =
     (case encode_ascii source of Inl e \<Rightarrow> Inl e | Inr ascii \<Rightarrow>
      (case b64decode ascii of Inl e \<Rightarrow> Inl e | Inr decoded_source \<Rightarrow>
       (if is_compressed
        then (case decompress decoded_source of Inl e \<Rightarrow> Inl e
              | Inr inflated \<Rightarrow> frombuffer inflated dt)
        else frombuffer decoded_source dt)))"

section \<open>The mappings of the XML converter\<close>

text \<open>
  \<^verbatim>\<open>self._get_info\<close> of the base class turns an element into a \<^verbatim>\<open>dict\<close> from field
  names to values: text, lists, nested mappings, and, once this module has decoded
  them, numbers and arrays. A \<^verbatim>\<open>dict\<close> is an association list with distinct keys,
  iterated in list order: deleting a key keeps the order of the others, assigning to a
  present key keeps its place, assigning to a new key appends it.
\<close>

datatype pyval = PyNone | PyStr string | PyInt int | PyList "pyval list"
  | PyDict "(string \<times> pyval) list" | PyArray ndarray

type_synonym pydict = "(string \<times> pyval) list"

definition dict_in :: "string \<Rightarrow> pydict \<Rightarrow> bool" where
  "dict_in k d = (map_of d k \<noteq> None)"

definition endswith :: "string \<Rightarrow> string \<Rightarrow> bool" where
  "endswith s suffix = (length suffix \<le> length s \<and> drop (length s - length suffix) s = suffix)"

fun substring :: "string \<Rightarrow> string \<Rightarrow> bool" where
  "substring t [] = (t = [])"
| "substring t (c # cs) = (take (length t) (c # cs) = t \<or> substring t cs)"

text \<open>
  A float is zero when all bits but the sign are clear. The truth value of an array is
  that of its only element, \<^verbatim>\<open>False\<close> for an empty array, and a
  \<^verbatim>\<open>ValueError\<close> for an array of two or more elements.
\<close>

definition nonzero32 :: "32 word \<Rightarrow> bool" where
  "nonzero32 w = (unat w mod 2 ^ 31 \<noteq> 0)"

definition nonzero64 :: "64 word \<Rightarrow> bool" where
  "nonzero64 w = (unat w mod 2 ^ 63 \<noteq> 0)"

fun truth :: "pyval \<Rightarrow> error + bool" where
  "truth PyNone = Inr False"
| "truth (PyStr s) = Inr (s \<noteq> [])"
| "truth (PyInt i) = Inr (i \<noteq> 0)"
| "truth (PyList xs) = Inr (xs \<noteq> [])"
| "truth (PyDict d) = Inr (d \<noteq> [])"
| "truth (PyArray (F32Array [])) = Inr False"
| "truth (PyArray (F32Array [x])) = Inr (nonzero32 x)"
| "truth (PyArray (F32Array (x # y # xs))) = Inl ValueError"
| "truth (PyArray (F64Array [])) = Inr False"
| "truth (PyArray (F64Array [x])) = Inr (nonzero64 x)"
| "truth (PyArray (F64Array (x # y # xs))) = Inl ValueError"

text \<open>
  \<^verbatim>\<open>t in v\<close> for a string \<open>t\<close>: a substring test on a string, membership in a list,
  key membership in a mapping, a \<^verbatim>\<open>TypeError\<close> on \<^verbatim>\<open>None\<close> and on a number, and
  \<^verbatim>\<open>False\<close> on an array of floats.
\<close>

fun contains :: "string \<Rightarrow> pyval \<Rightarrow> error + bool" where
  "contains t PyNone = Inl TypeError"
| "contains t (PyInt i) = Inl TypeError"
| "contains t (PyStr s) = Inr (substring t s)"
| "contains t (PyList xs) = Inr (PyStr t \<in> set xs)"
| "contains t (PyDict d) = Inr (dict_in t d)"
| "contains t (PyArray a) = Inr False"

text \<open>
  \<^verbatim>\<open>v.remove(t)\<close>: only a list has the method; it drops the first occurrence and
  raises a \<^verbatim>\<open>ValueError\<close> when there is none.
\<close>

fun list_remove :: "string \<Rightarrow> pyval \<Rightarrow> error + pyval" where
  "list_remove t (PyList xs) =
     (if PyStr t \<in> set xs then Inr (PyList (remove1 (PyStr t) xs)) else Inl ValueError)"
| "list_remove t v = Inl AttributeError"

section \<open>The normalizer \<^verbatim>\<open>MzML._get_info_smart\<close>\<close>

text \<open>
  The method first calls \<^verbatim>\<open>self._get_info\<close> of the base class on the element; all
  that follows in its body works on the mapping \<open>info\<close> that call returned. The model
  starts there: \<open>get_info_smart\<close> takes \<open>info\<close>. The loops and the blocks of the body are
  functions of their own, in the order of the source.
\<close>

definition types :: "(string \<times> dtype) list" where
  "types = [(''32-bit float'', Float32), (''64-bit float'', Float64)]"

text \<open>Lines 120 to 124: the first type tag that is a key of \<open>info\<close> is deleted.\<close>

fun find_type_key :: "(string \<times> dtype) list \<Rightarrow> pydict \<Rightarrow> (dtype \<times> pydict) option" where
  "find_type_key [] info = None"
| "find_type_key ((t, code) # ts) info =
     (if dict_in t info then Some (code, AList.delete t info) else find_type_key ts info)"

text \<open>Lines 128 to 132: the first type tag found in \<^verbatim>\<open>info['name']\<close> is removed from it.\<close>

fun find_type_name :: "(string \<times> dtype) list \<Rightarrow> pyval \<Rightarrow> error + (dtype \<times> pyval) option" where
  "find_type_name [] nm = Inr None"
| "find_type_name ((t, code) # ts) nm =
     (case contains t nm of
        Inl e \<Rightarrow> Inl e
      | Inr True \<Rightarrow> (case list_remove t nm of Inl e \<Rightarrow> Inl e | Inr nm' \<Rightarrow> Inr (Some (code, nm')))
      | Inr False \<Rightarrow> find_type_name ts nm)"

text \<open>
  Lines 119 to 132. The result \<open>None\<close> for the type is the state in which the local
  variable \<^verbatim>\<open>dtype\<close> was never assigned.
\<close>

definition detect_dtype :: "pydict \<Rightarrow> error + (dtype option \<times> pydict)" where
  "detect_dtype info =
     (case find_type_key types info of
        Some (code, info') \<Rightarrow> Inr (Some code, info')
      | None \<Rightarrow>
          (case map_of info ''name'' of
             None \<Rightarrow> Inr (None, info)
           | Some nm \<Rightarrow>
               (case find_type_name types nm of
                  Inl e \<Rightarrow> Inl e
                | Inr None \<Rightarrow> Inr (None, info)
                | Inr (Some (code, nm')) \<Rightarrow> Inr (Some code, AList.update ''name'' nm' info))))"

text \<open>
  Lines 133 to 145. In the last branch \<^verbatim>\<open>info['name'].remove('no compression')\<close> runs
  inside \<^verbatim>\<open>try\<close>: the \<^verbatim>\<open>KeyError\<close> of a missing \<^verbatim>\<open>'name'\<close> is caught, as a
  \<^verbatim>\<open>TypeError\<close> would be; the \<^verbatim>\<open>ValueError\<close> of a list without that entry and the
  \<^verbatim>\<open>AttributeError\<close> of a value that is no list are not.
\<close>

definition detect_compression :: "pydict \<Rightarrow> error + (bool \<times> pydict)" where
  "detect_compression info =
     (if dict_in ''zlib compression'' info
      then Inr (True, AList.delete ''zlib compression'' info)
      else (case map_of info ''name'' of
              None \<Rightarrow> Inr (False, AList.delete ''no compression'' info)
            | Some nm \<Rightarrow>
                (case contains ''zlib compression'' nm of
                   Inl e \<Rightarrow> Inl e
                 | Inr True \<Rightarrow>
                     (case list_remove ''zlib compression'' nm of
                        Inl e \<Rightarrow> Inl e
                      | Inr nm' \<Rightarrow> Inr (True, AList.update ''name'' nm' info))
                 | Inr False \<Rightarrow>
                     (case list_remove ''no compression'' nm of
                        Inl e \<Rightarrow>
                          (if e = KeyError \<or> e = TypeError
                           then Inr (False, AList.delete ''no compression'' info)
                           else Inl e)
                      | Inr nm' \<Rightarrow>
                          (if nm' = PyList []
                           then Inr (False, AList.delete ''name'' (AList.delete ''no compression'' info))
                           else Inr (False, AList.update ''name'' nm'
                                              (AList.delete ''no compression'' info)))))))"

text \<open>
  Lines 147 to 151. The arguments of the call are evaluated before the call, so an
  unassigned \<^verbatim>\<open>dtype\<close> raises before anything is decoded; inside the decoder
  \<^verbatim>\<open>source.encode\<close> exists for a string only.
\<close>

definition decode_binary ::
  "(bytes \<Rightarrow> error + bytes) \<Rightarrow> pyval \<Rightarrow> dtype option \<Rightarrow> bool \<Rightarrow> error + ndarray" where
  "decode_binary decompress b dtype compressed =
     (case truth b of
        Inl e \<Rightarrow> Inl e
      | Inr True \<Rightarrow>
          (case dtype of
             None \<Rightarrow> Inl UnboundLocalError
           | Some dt \<Rightarrow>
               (case b of
                  PyStr s \<Rightarrow> decode_base64_data_array decompress s dt compressed
                | _ \<Rightarrow> Inl AttributeError))
      | Inr False \<Rightarrow>
          (case dtype of None \<Rightarrow> Inl UnboundLocalError | Some dt \<Rightarrow> Inr (empty_array dt)))"

text \<open>Lines 152 to 155: the first key ending in \<^verbatim>\<open>' array'\<close> whose value is false.\<close>

fun find_array_key :: "pydict \<Rightarrow> error + string option" where
  "find_array_key [] = Inr None"
| "find_array_key ((k, v) # kvs) =
     (if endswith k '' array''
      then (case truth v of
              Inl e \<Rightarrow> Inl e
            | Inr t \<Rightarrow> if \<not> t then Inr (Some k) else find_array_key kvs)
      else find_array_key kvs)"

text \<open>
  Lines 161 to 165: the first entry of the name list ending in \<^verbatim>\<open>' array'\<close>; an entry
  that is no string has no \<^verbatim>\<open>endswith\<close>.
\<close>

fun find_array_name :: "pyval list \<Rightarrow> error + string option" where
  "find_array_name [] = Inr None"
| "find_array_name (val # knames) =
     (case val of
        PyStr s \<Rightarrow> if endswith s '' array'' then Inr (Some s) else find_array_name knames
      | _ \<Rightarrow> Inl AttributeError)"

text \<open>Lines 152 to 168: the mapping that replaces \<open>info\<close> once the array is decoded.\<close>

definition store_array :: "pydict \<Rightarrow> ndarray \<Rightarrow> error + pydict" where
  "store_array info array =
     (case find_array_key info of
        Inl e \<Rightarrow> Inl e
      | Inr (Some k) \<Rightarrow> Inr [(k, PyArray array)]
      | Inr None \<Rightarrow>
          (case map_of info ''name'' of
             Some (PyList knames) \<Rightarrow>
               (case find_array_name knames of
                  Inl e \<Rightarrow> Inl e
                | Inr (Some val) \<Rightarrow> Inr [(val, PyArray array)]
                | Inr None \<Rightarrow> Inr (AList.update ''binary'' (PyArray array) info))
           | _ \<Rightarrow> Inr (AList.update ''binary'' (PyArray array) info)))"

text \<open>Lines 119 to 168, the body of \<^verbatim>\<open>if 'binary' in info\<close>.\<close>

definition normalize_binary :: "(bytes \<Rightarrow> error + bytes) \<Rightarrow> pydict \<Rightarrow> error + pydict" where
  "normalize_binary decompress info =
     (case detect_dtype info of
        Inl e \<Rightarrow> Inl e
      | Inr (dtype, info1) \<Rightarrow>
          (case detect_compression info1 of
             Inl e \<Rightarrow> Inl e
           | Inr (compressed, info2) \<Rightarrow>
               (case map_of info2 ''binary'' of
                  None \<Rightarrow> Inl KeyError
                | Some b \<Rightarrow>
                    (case decode_binary decompress b dtype compressed of
                       Inl e \<Rightarrow> Inl e
                     | Inr array \<Rightarrow> store_array (AList.delete ''binary'' info2) array))))"

text \<open>
  Lines 169 to 171. The converter stores a list of mappings under
  \<^verbatim>\<open>'binaryDataArray'\<close>; a value of another shape, which it never builds, is a
  \<^verbatim>\<open>TypeError\<close> in the model.
\<close>

definition dict_update :: "pydict \<Rightarrow> pydict \<Rightarrow> pydict" where
  "dict_update info other = fold (\<lambda>(k, v). AList.update k v) other info"

fun update_all :: "pyval list \<Rightarrow> pydict \<Rightarrow> error + pydict" where
  "update_all [] info = Inr info"
| "update_all (array # arrays) info =
     (case array of
        PyDict d \<Rightarrow> update_all arrays (dict_update info d)
      | _ \<Rightarrow> Inl TypeError)"

definition flatten_binaryDataArray :: "pydict \<Rightarrow> error + pydict" where
  "flatten_binaryDataArray info =
     (case map_of info ''binaryDataArray'' of
        None \<Rightarrow> Inr info
      | Some (PyList arrays) \<Rightarrow> update_all arrays (AList.delete ''binaryDataArray'' info)
      | Some _ \<Rightarrow> Inl TypeError)"

text \<open>
  Lines 172 to 175, \<^verbatim>\<open>int(info['ms level'])\<close>. On a string \<^verbatim>\<open>int\<close> reads an
  optional sign and decimal digits between optional white space; on an array of one
  float it truncates the float towards zero.
\<close>

definition isspace :: "char \<Rightarrow> bool" where
  "isspace c = ((of_char c :: nat) \<in> {9, 10, 11, 12, 13, 32})"

definition isdigit :: "char \<Rightarrow> bool" where
  "isdigit c = (48 \<le> (of_char c :: nat) \<and> (of_char c :: nat) \<le> 57)"

definition digits_value :: "string \<Rightarrow> nat" where
  "digits_value s = foldl (\<lambda>acc c. 10 * acc + (of_char c - 48)) 0 s"

definition strip :: "string \<Rightarrow> string" where
  "strip s = rev (dropWhile isspace (rev (dropWhile isspace s)))"

definition int_of_digits :: "string \<Rightarrow> error + int" where
  "int_of_digits s =
     (if s \<noteq> [] \<and> list_all isdigit s then Inr (int (digits_value s)) else Inl ValueError)"

definition int_of_str :: "string \<Rightarrow> error + int" where
  "int_of_str s =
     (case strip s of
        [] \<Rightarrow> Inl ValueError
      | c # cs \<Rightarrow>
          if c = CHR ''-'' then (case int_of_digits cs of Inl e \<Rightarrow> Inl e | Inr i \<Rightarrow> Inr (- i))
          else if c = CHR ''+'' then int_of_digits cs
          else int_of_digits (c # cs))"

definition int_of_float :: "nat \<Rightarrow> nat \<Rightarrow> nat \<Rightarrow> error + int" where
  "int_of_float mant_bits exp_bits w =
     (let m = w mod 2 ^ mant_bits;
          e = (w div 2 ^ mant_bits) mod 2 ^ exp_bits;
          negative = ((w div 2 ^ (mant_bits + exp_bits)) mod 2 = 1);
          bias = 2 ^ (exp_bits - 1) - 1 + mant_bits;
          magnitude =
            (if e = 0 then 0
             else if bias \<le> e then (2 ^ mant_bits + m) * 2 ^ (e - bias)
             else (2 ^ mant_bits + m) div 2 ^ (bias - e))
      in if e = 2 ^ exp_bits - 1 then Inl ValueError
         else Inr (if negative then - int magnitude else int magnitude))"

fun py_int :: "pyval \<Rightarrow> error + int" where
  "py_int (PyInt i) = Inr i"
| "py_int (PyStr s) = int_of_str s"
| "py_int (PyArray (F32Array [x])) = int_of_float 23 8 (unat x)"
| "py_int (PyArray (F64Array [x])) = int_of_float 52 11 (unat x)"
| "py_int v = Inl TypeError"

definition coerce_intkeys :: "pydict \<Rightarrow> error + pydict" where
  "coerce_intkeys info =
     (case map_of info ''ms level'' of
        None \<Rightarrow> Inr info
      | Some v \<Rightarrow>
          (case py_int v of
             Inl e \<Rightarrow> Inl e
           | Inr i \<Rightarrow> Inr (AList.update ''ms level'' (PyInt i) info)))"

definition get_info_smart :: "(bytes \<Rightarrow> error + bytes) \<Rightarrow> pydict \<Rightarrow> error + pydict" where
  "get_info_smart decompress info =
     (case (if dict_in ''binary'' info then normalize_binary decompress info else Inr info) of
        Inl e \<Rightarrow> Inl e
      | Inr info1 \<Rightarrow>
          (case flatten_binaryDataArray info1 of
             Inl e \<Rightarrow> Inl e
           | Inr info2 \<Rightarrow> coerce_intkeys info2))"

section \<open>The array key, in the words of the specification\<close>

text \<open>
  The own keys of a mapping that end in \<^verbatim>\<open>' array'\<close> and have a false value, in
  iteration order, and the entries of its \<^verbatim>\<open>'name'\<close> list that end in
  \<^verbatim>\<open>' array'\<close>.
\<close>

definition falsy_array_keys :: "pydict \<Rightarrow> string list" where
  "falsy_array_keys info =
     map fst (filter (\<lambda>(k, v). endswith k '' array'' \<and> truth v = Inr False) info)"

fun names_ending :: "pyval list \<Rightarrow> string list" where
  "names_ending [] = []"
| "names_ending (PyStr s # vs) = (if endswith s '' array'' then s # names_ending vs else names_ending vs)"
| "names_ending (v # vs) = names_ending vs"

definition array_names :: "pydict \<Rightarrow> string list" where
  "array_names info =
     (case map_of info ''name'' of Some (PyList knames) \<Rightarrow> names_ending knames | _ \<Rightarrow> [])"

text \<open>
  The rule of the specification: exactly one such key selects it; otherwise an entry
  of the name list; otherwise the literal key \<^verbatim>\<open>'binary'\<close>.
\<close>

definition key_rule_exactly_one :: "pydict \<Rightarrow> pydict \<Rightarrow> ndarray \<Rightarrow> bool" where
  "key_rule_exactly_one info out array =
     (case falsy_array_keys info of
        [k] \<Rightarrow> out = [(k, PyArray array)]
      | _ \<Rightarrow>
        (case array_names info of
           val # _ \<Rightarrow> out = [(val, PyArray array)]
         | [] \<Rightarrow> map_of out ''binary'' = Some (PyArray array)))"

text \<open>The rule of the code: the first such key selects it, however many there are.\<close>

definition key_rule_first :: "pydict \<Rightarrow> pydict \<Rightarrow> ndarray \<Rightarrow> bool" where
  "key_rule_first info out array =
     (case falsy_array_keys info of
        k # _ \<Rightarrow> out = [(k, PyArray array)]
      | [] \<Rightarrow>
        (case array_names info of
           val # _ \<Rightarrow> out = [(val, PyArray array)]
         | [] \<Rightarrow> map_of out ''binary'' = Some (PyArray array)))"

section \<open>A tagged binary array\<close>

text \<open>
  The mapping the converter builds for a \<^verbatim>\<open>binaryDataArray\<close> element that carries its
  payload, one type tag, one compression tag and the name of its array.
\<close>

definition type_tag :: "dtype \<Rightarrow> string" where
  "type_tag dt = (case dt of Float32 \<Rightarrow> ''32-bit float'' | Float64 \<Rightarrow> ''64-bit float'')"

definition compression_tag :: "bool \<Rightarrow> string" where
  "compression_tag compressed = (if compressed then ''zlib compression'' else ''no compression'')"

definition binary_data_array :: "string \<Rightarrow> dtype \<Rightarrow> bool \<Rightarrow> string \<Rightarrow> pydict" where
  "binary_data_array payload dt compressed array_name =
     [(type_tag dt, PyStr ''''), (compression_tag compressed, PyStr ''''),
      (array_name, PyStr ''''), (''binary'', PyStr payload)]"

section \<open>Encoding an array\<close>

text \<open>
  The encoder of the round trip is not in the module; it is the standard one. An array
  becomes the little-endian bytes of its elements, which are compressed on demand by a
  function \<open>compress\<close> (the deflate routine of zlib, a parameter like its inverse) and
  written in base64 with padding.
\<close>

definition b2a_char :: "nat \<Rightarrow> char" where
  "b2a_char v =
     (if v < 26 then char_of (65 + v)
      else if v < 52 then char_of (97 + (v - 26))
      else if v < 62 then char_of (48 + (v - 52))
      else if v = 62 then CHR ''+'' else CHR ''/'')"

fun b64encode :: "bytes \<Rightarrow> string" where
  "b64encode (a # b # c # rest) =
     b2a_char (of_char a div 4) # b2a_char (of_char a mod 4 * 16 + of_char b div 16)
     # b2a_char (of_char b mod 16 * 4 + of_char c div 64) # b2a_char (of_char c mod 64)
     # b64encode rest"
| "b64encode [a, b] =
     [b2a_char (of_char a div 4), b2a_char (of_char a mod 4 * 16 + of_char b div 16),
      b2a_char (of_char b mod 16 * 4), CHR ''='']"
| "b64encode [a] =
     [b2a_char (of_char a div 4), b2a_char (of_char a mod 4 * 16), CHR ''='', CHR ''='']"
| "b64encode [] = []"

fun le_bytes :: "nat \<Rightarrow> nat \<Rightarrow> bytes" where
  "le_bytes 0 n = []"
| "le_bytes (Suc k) n = char_of (n mod 256) # le_bytes k (n div 256)"

fun tobytes :: "ndarray \<Rightarrow> bytes" where
  "tobytes (F32Array xs) = concat (map (\<lambda>w. le_bytes 4 (unat w)) xs)"
| "tobytes (F64Array xs) = concat (map (\<lambda>w. le_bytes 8 (unat w)) xs)"

definition encode_array :: "(bytes \<Rightarrow> bytes) \<Rightarrow> ndarray \<Rightarrow> bool \<Rightarrow> string" where
  "encode_array compress a compressed =
     b64encode (if compressed then compress (tobytes a) else tobytes a)"

section \<open>Lemmas on mappings\<close>

lemma dict_in_delete: "dict_in k (AList.delete k' d) = (k \<noteq> k' \<and> dict_in k d)"
  by (auto simp add: dict_in_def delete_conv')

lemma dict_in_update: "dict_in k (AList.update k' v d) = (k = k' \<or> dict_in k d)"
  by (auto simp add: dict_in_def update_conv')

section \<open>A binary array without a type tag\<close>

lemma find_type_key_none:
  "\<not> dict_in ''32-bit float'' info \<Longrightarrow> \<not> dict_in ''64-bit float'' info \<Longrightarrow>
   find_type_key types info = None"
  by (simp add: types_def)

lemma find_type_name_none:
  "PyStr ''32-bit float'' \<notin> set xs \<Longrightarrow> PyStr ''64-bit float'' \<notin> set xs \<Longrightarrow>
   find_type_name types (PyList xs) = Inr None"
  by (simp add: types_def)

lemma detect_dtype_untagged:
  assumes "\<not> dict_in ''32-bit float'' info" "\<not> dict_in ''64-bit float'' info"
    and "map_of info ''name'' = None \<or>
         (\<exists>xs. map_of info ''name'' = Some (PyList xs) \<and>
               PyStr ''32-bit float'' \<notin> set xs \<and> PyStr ''64-bit float'' \<notin> set xs)"
  shows "detect_dtype info = Inr (None, info)"
  using assms by (auto simp add: detect_dtype_def find_type_key_none find_type_name_none)

lemma detect_compression_binary:
  "detect_compression info = Inr (c, info2) \<Longrightarrow> map_of info2 ''binary'' = map_of info ''binary''"
  by (auto simp add: detect_compression_def delete_conv' update_conv'
      split: if_splits option.splits sum.splits bool.splits)

lemma detect_compression_error:
  "detect_compression info = Inl e \<Longrightarrow>
   map_of info ''name'' = None \<or> (\<exists>xs. map_of info ''name'' = Some (PyList xs)) \<Longrightarrow>
   e = ValueError"
  by (auto simp add: detect_compression_def split: if_splits option.splits sum.splits bool.splits)

lemma truth_error: "truth b = Inl e \<Longrightarrow> e = ValueError"
  by (induction b rule: truth.induct) auto

lemma decode_binary_unbound:
  "decode_binary decompress b None c = Inl UnboundLocalError \<or>
   decode_binary decompress b None c = Inl ValueError"
proof (cases "truth b")
  case (Inl e)
  then have "e = ValueError" by (rule truth_error)
  with Inl show ?thesis by (simp add: decode_binary_def)
next
  case (Inr t)
  then show ?thesis by (simp add: decode_binary_def split: bool.splits)
qed

lemma normalize_binary_untagged:
  assumes "\<not> dict_in ''32-bit float'' info" "\<not> dict_in ''64-bit float'' info"
    and nm: "map_of info ''name'' = None \<or>
         (\<exists>xs. map_of info ''name'' = Some (PyList xs) \<and>
               PyStr ''32-bit float'' \<notin> set xs \<and> PyStr ''64-bit float'' \<notin> set xs)"
    and "dict_in ''binary'' info"
  shows "normalize_binary decompress info = Inl UnboundLocalError \<or>
         normalize_binary decompress info = Inl ValueError"
proof -
  have d: "detect_dtype info = Inr (None, info)"
    using assms by (intro detect_dtype_untagged) auto
  show ?thesis
  proof (cases "detect_compression info")
    case (Inl e)
    then have "e = ValueError" using nm by (auto dest: detect_compression_error)
    with Inl d show ?thesis by (simp add: normalize_binary_def)
  next
    case (Inr r)
    obtain c info2 where r: "r = (c, info2)" by (cases r)
    with Inr have "map_of info2 ''binary'' = map_of info ''binary''"
      by (auto dest: detect_compression_binary)
    with \<open>dict_in ''binary'' info\<close> obtain b where b: "map_of info2 ''binary'' = Some b"
      by (auto simp add: dict_in_def)
    from decode_binary_unbound [of decompress b c] show ?thesis
      using d Inr r b by (auto simp add: normalize_binary_def)
  qed
qed

text \<open>
  Claim C3, as the code has it. A mapping has a \<^verbatim>\<open>'binary'\<close> key, neither
  \<^verbatim>\<open>'32-bit float'\<close> nor \<^verbatim>\<open>'64-bit float'\<close> is one of its keys, and its
  \<^verbatim>\<open>'name'\<close>, when present, is a list holding neither. Then the normalizer returns no
  record: the local variable \<^verbatim>\<open>dtype\<close> is never assigned and its first use raises an
  \<^verbatim>\<open>UnboundLocalError\<close>, unless a \<^verbatim>\<open>ValueError\<close> came first (from
  \<^verbatim>\<open>info['name'].remove('no compression')\<close> on a list without that entry, or from the
  truth value of an array). The error is never a \<open>SchemaError\<close>.
\<close>

theorem untagged_binary_raises:
  assumes "dict_in ''binary'' info"
    and "\<not> dict_in ''32-bit float'' info" "\<not> dict_in ''64-bit float'' info"
    and "map_of info ''name'' = None \<or>
         (\<exists>xs. map_of info ''name'' = Some (PyList xs) \<and>
               PyStr ''32-bit float'' \<notin> set xs \<and> PyStr ''64-bit float'' \<notin> set xs)"
  shows "get_info_smart decompress info = Inl UnboundLocalError \<or>
         get_info_smart decompress info = Inl ValueError"
  using normalize_binary_untagged [OF assms(2,3,4,1), of decompress] assms(1)
  by (auto simp add: get_info_smart_def)

theorem untagged_binary_raises_witness:
  "dict_in ''binary'' [(''binary'', PyStr ''AACAPw==''), (''name'', PyList [PyStr ''m/z array''])] \<and>
   get_info_smart Inr [(''binary'', PyStr ''AACAPw==''), (''name'', PyList [PyStr ''m/z array''])]
     = Inl ValueError"
  using untagged_binary_raises
    [of "[(''binary'', PyStr ''AACAPw==''), (''name'', PyList [PyStr ''m/z array''])]" Inr]
  by (simp add: dict_in_def get_info_smart_def normalize_binary_def detect_dtype_def types_def
      detect_compression_def)

text \<open>
  Claim C3 as stated fails: a \<^verbatim>\<open>binaryDataArray\<close> mapping with a payload and an array
  name but no type tag makes the normalizer raise \<^verbatim>\<open>UnboundLocalError\<close>, which is not
  the \<open>SchemaError\<close> of the claim.
\<close>

theorem untagged_binary_counterexample:
  "dict_in ''binary'' [(''binary'', PyStr ''AACAPw==''), (''m/z array'', PyStr '''')] \<and>
   \<not> dict_in ''32-bit float'' [(''binary'', PyStr ''AACAPw==''), (''m/z array'', PyStr '''')] \<and>
   \<not> dict_in ''64-bit float'' [(''binary'', PyStr ''AACAPw==''), (''m/z array'', PyStr '''')] \<and>
   map_of [(''binary'', PyStr ''AACAPw==''), (''m/z array'', PyStr '''')] ''name'' = None \<and>
   get_info_smart Inr [(''binary'', PyStr ''AACAPw==''), (''m/z array'', PyStr '''')]
     = Inl UnboundLocalError \<and>
   get_info_smart Inr [(''binary'', PyStr ''AACAPw==''), (''m/z array'', PyStr '''')]
     \<noteq> Inl SchemaError"
  by (simp add: dict_in_def get_info_smart_def normalize_binary_def detect_dtype_def types_def
      detect_compression_def decode_binary_def)

section \<open>Applying the normalizer to its own output\<close>

lemma endswith_array_neq:
  "endswith k '' array'' \<Longrightarrow> k \<noteq> ''binary'' \<and> k \<noteq> ''binaryDataArray'' \<and> k \<noteq> ''ms level'' \<and> k \<noteq> ''name''"
  by (auto simp add: endswith_def)

lemma find_array_key_Some: "find_array_key info = Inr (Some k) \<Longrightarrow> endswith k '' array''"
  by (induction info rule: find_array_key.induct) (auto split: if_splits sum.splits)

lemma find_array_name_Some: "find_array_name xs = Inr (Some s) \<Longrightarrow> endswith s '' array''"
  by (induction xs rule: find_array_name.induct) (auto split: if_splits pyval.splits)

lemma store_array_shape:
  "store_array info a = Inr r \<Longrightarrow>
   (\<exists>k. r = [(k, PyArray a)] \<and> endswith k '' array'') \<or> dict_in ''binary'' r"
  by (auto simp add: store_array_def dict_in_update
      dest: find_array_key_Some find_array_name_Some
      split: sum.splits option.splits pyval.splits)

lemma normalize_binary_shape:
  "normalize_binary decompress info = Inr r \<Longrightarrow>
   (\<exists>k a. r = [(k, PyArray a)] \<and> endswith k '' array'') \<or> dict_in ''binary'' r"
  by (auto simp add: normalize_binary_def dest!: store_array_shape
      split: sum.splits option.splits prod.splits)

lemma dict_in_dict_update: "dict_in k info \<Longrightarrow> dict_in k (dict_update info d)"
  unfolding dict_update_def
  by (induction d arbitrary: info) (auto simp add: dict_in_update)

lemma dict_in_update_all:
  "update_all xs info = Inr r \<Longrightarrow> dict_in k info \<Longrightarrow> dict_in k r"
  by (induction xs info rule: update_all.induct)
     (auto simp add: dict_in_dict_update split: pyval.splits)

lemma dict_in_flatten:
  "flatten_binaryDataArray info = Inr r \<Longrightarrow> dict_in ''binary'' info \<Longrightarrow> dict_in ''binary'' r"
proof (cases "map_of info ''binaryDataArray''")
  case None
  then show "flatten_binaryDataArray info = Inr r \<Longrightarrow> dict_in ''binary'' info \<Longrightarrow> dict_in ''binary'' r"
    by (simp add: flatten_binaryDataArray_def)
next
  case (Some v)
  assume a: "flatten_binaryDataArray info = Inr r" and b: "dict_in ''binary'' info"
  from a Some obtain xs where "v = PyList xs"
    and "update_all xs (AList.delete ''binaryDataArray'' info) = Inr r"
    by (cases v) (simp_all add: flatten_binaryDataArray_def)
  moreover have "dict_in ''binary'' (AList.delete ''binaryDataArray'' info)"
    using b by (simp add: dict_in_delete)
  ultimately show "dict_in ''binary'' r" by (blast intro: dict_in_update_all)
qed

lemma dict_in_coerce:
  "coerce_intkeys info = Inr r \<Longrightarrow> dict_in k info \<Longrightarrow> dict_in k r"
  by (auto simp add: coerce_intkeys_def dict_in_update split: option.splits sum.splits)

lemma single_array_fixed:
  assumes "endswith k '' array''"
  shows "get_info_smart decompress [(k, PyArray a)] = Inr [(k, PyArray a)]"
  using endswith_array_neq [OF assms]
  by (auto simp add: get_info_smart_def dict_in_def flatten_binaryDataArray_def coerce_intkeys_def)

text \<open>
  Claim C5, as the code has it. When the normalizer returns, for a mapping with a
  \<^verbatim>\<open>'binary'\<close> key, a mapping without a \<^verbatim>\<open>'binary'\<close> key, that output is the
  single entry of a key ending in \<^verbatim>\<open>' array'\<close> with the decoded array, and a second
  application returns it unchanged.
\<close>

theorem second_application_noop:
  assumes "dict_in ''binary'' info"
    and "get_info_smart decompress info = Inr out"
    and "\<not> dict_in ''binary'' out"
  shows "get_info_smart decompress out = Inr out \<and>
         (\<exists>k a. out = [(k, PyArray a)] \<and> endswith k '' array'')"
proof -
  from assms(1,2) obtain r r2 where r: "normalize_binary decompress info = Inr r"
    and r2: "flatten_binaryDataArray r = Inr r2" and out: "coerce_intkeys r2 = Inr out"
    by (auto simp add: get_info_smart_def split: sum.splits)
  have "\<not> dict_in ''binary'' r"
    using assms(3) dict_in_coerce [OF out] dict_in_flatten [OF r2] by blast
  with normalize_binary_shape [OF r] obtain k a
    where shape: "r = [(k, PyArray a)]" "endswith k '' array''" by blast
  from endswith_array_neq [OF shape(2)] shape(1) r2 have "r2 = r"
    by (auto simp add: flatten_binaryDataArray_def split: if_splits)
  with endswith_array_neq [OF shape(2)] shape(1) out have "out = r"
    by (auto simp add: coerce_intkeys_def split: if_splits)
  with shape single_array_fixed [OF shape(2), of decompress a] show ?thesis by simp
qed

theorem second_application_noop_witness:
  "dict_in ''binary'' [(''binary'', PyStr ''AACAPw==''), (''32-bit float'', PyStr ''''), (''m/z array'', PyStr '''')] \<and>
   get_info_smart Inr [(''binary'', PyStr ''AACAPw==''), (''32-bit float'', PyStr ''''), (''m/z array'', PyStr '''')]
     = Inr [(''m/z array'', PyArray (F32Array [0x3F800000]))] \<and>
   \<not> dict_in ''binary'' [(''m/z array'', PyArray (F32Array [0x3F800000]))] \<and>
   get_info_smart Inr [(''m/z array'', PyArray (F32Array [0x3F800000]))]
     = Inr [(''m/z array'', PyArray (F32Array [0x3F800000]))]"
proof -
  have 1: "dict_in ''binary'' [(''binary'', PyStr ''AACAPw==''), (''32-bit float'', PyStr ''''), (''m/z array'', PyStr '''')]"
    by (simp add: dict_in_def)
  have 2: "get_info_smart Inr [(''binary'', PyStr ''AACAPw==''), (''32-bit float'', PyStr ''''), (''m/z array'', PyStr '''')]
     = Inr [(''m/z array'', PyArray (F32Array [0x3F800000]))]"
    by (simp add: dict_in_def get_info_smart_def normalize_binary_def detect_dtype_def types_def
      detect_compression_def decode_binary_def decode_base64_data_array_def encode_ascii_def
      b64decode_def table_a2b_base64_def frombuffer_def store_array_def endswith_def
      flatten_binaryDataArray_def coerce_intkeys_def)
  have 3: "\<not> dict_in ''binary'' [(''m/z array'', PyArray (F32Array [0x3F800000]))]"
    by (simp add: dict_in_def)
  from second_application_noop [OF 1 2 3] 1 2 3 show ?thesis by simp
qed

text \<open>
  Claim C5 as stated fails on the last-resort path: a \<^verbatim>\<open>binaryDataArray\<close> with a type
  tag and no array name comes back with the decoded array under \<^verbatim>\<open>'binary'\<close>, and the
  second application takes that array for a payload and raises.
\<close>

theorem fallback_keeps_binary_counterexample:
  "dict_in ''binary'' [(''binary'', PyStr ''AACAPw==''), (''32-bit float'', PyStr '''')] \<and>
   get_info_smart Inr [(''binary'', PyStr ''AACAPw==''), (''32-bit float'', PyStr '''')]
     = Inr [(''binary'', PyArray (F32Array [0x3F800000]))] \<and>
   dict_in ''binary'' [(''binary'', PyArray (F32Array [0x3F800000]))] \<and>
   get_info_smart Inr [(''binary'', PyArray (F32Array [0x3F800000]))] = Inl UnboundLocalError"
  by (simp add: dict_in_def get_info_smart_def normalize_binary_def detect_dtype_def types_def
      detect_compression_def decode_binary_def decode_base64_data_array_def encode_ascii_def
      b64decode_def table_a2b_base64_def frombuffer_def store_array_def endswith_def
      flatten_binaryDataArray_def coerce_intkeys_def nonzero32_def)

section \<open>The semantic array key\<close>

lemma find_array_key_falsy:
  "find_array_key info = Inr r \<Longrightarrow>
   r = (case falsy_array_keys info of [] \<Rightarrow> None | k # _ \<Rightarrow> Some k)"
  by (induction info rule: find_array_key.induct)
     (auto simp add: falsy_array_keys_def split: if_splits sum.splits)

lemma falsy_array_keys_delete:
  "\<not> endswith k '' array'' \<Longrightarrow> falsy_array_keys (AList.delete k info) = falsy_array_keys info"
  by (induction info) (auto simp add: falsy_array_keys_def)

lemma falsy_array_keys_update:
  "\<not> endswith k '' array'' \<Longrightarrow> falsy_array_keys (AList.update k v info) = falsy_array_keys info"
  by (induction info) (auto simp add: falsy_array_keys_def)

lemma find_array_name_ending:
  "find_array_name xs = Inr r \<Longrightarrow>
   r = (case names_ending xs of [] \<Rightarrow> None | s # _ \<Rightarrow> Some s)"
  by (induction xs rule: find_array_name.induct) (auto split: if_splits pyval.splits)

lemma names_ending_remove1:
  "\<not> endswith t '' array'' \<Longrightarrow> names_ending (remove1 (PyStr t) xs) = names_ending xs"
  by (induction xs rule: names_ending.induct) auto

lemma tags_not_array:
  "\<not> endswith ''32-bit float'' '' array''" "\<not> endswith ''64-bit float'' '' array''"
  "\<not> endswith ''zlib compression'' '' array''" "\<not> endswith ''no compression'' '' array''"
  "\<not> endswith ''name'' '' array''" "\<not> endswith ''binary'' '' array''"
  by (simp_all add: endswith_def)

lemma array_names_delete:
  "k \<noteq> ''name'' \<Longrightarrow> array_names (AList.delete k info) = array_names info"
  by (simp add: array_names_def delete_conv')

lemma list_remove_names:
  "list_remove t nm = Inr nm' \<Longrightarrow> \<not> endswith t '' array'' \<Longrightarrow>
   \<exists>xs. nm = PyList xs \<and> nm' = PyList (remove1 (PyStr t) xs) \<and>
        names_ending (remove1 (PyStr t) xs) = names_ending xs"
  by (cases nm) (auto simp add: names_ending_remove1 split: if_splits)

lemma array_names_update:
  "map_of info ''name'' = Some nm \<Longrightarrow> list_remove t nm = Inr nm' \<Longrightarrow>
   \<not> endswith t '' array'' \<Longrightarrow>
   array_names (AList.update ''name'' nm' info) = array_names info"
  by (auto simp add: array_names_def update_conv' dest!: list_remove_names)

lemma find_type_key_keeps:
  "find_type_key ts info = Some (code, info') \<Longrightarrow> set ts \<subseteq> set types \<Longrightarrow>
   falsy_array_keys info' = falsy_array_keys info \<and> array_names info' = array_names info \<and>
   map_of info' ''binary'' = map_of info ''binary''"
  by (induction ts info rule: find_type_key.induct)
     (auto simp add: types_def falsy_array_keys_delete array_names_delete tags_not_array
        delete_conv' split: if_splits)

lemma find_type_name_keeps:
  "find_type_name ts nm = Inr (Some (code, nm')) \<Longrightarrow> set ts \<subseteq> set types \<Longrightarrow>
   \<exists>t. list_remove t nm = Inr nm' \<and> \<not> endswith t '' array''"
  by (induction ts nm rule: find_type_name.induct)
     (auto simp add: types_def tags_not_array split: sum.splits bool.splits)

lemma detect_dtype_keeps:
  assumes "detect_dtype info = Inr (dt, info1)"
  shows "falsy_array_keys info1 = falsy_array_keys info \<and> array_names info1 = array_names info \<and>
         map_of info1 ''binary'' = map_of info ''binary''"
proof (cases "find_type_key types info")
  case (Some p)
  obtain code info' where p: "p = (code, info')" by (cases p)
  with Some assms have "info1 = info'" by (simp add: detect_dtype_def)
  with Some p find_type_key_keeps [of types info code info'] show ?thesis by simp
next
  case None
  show ?thesis
  proof (cases "map_of info ''name''")
    case n: None
    with None assms show ?thesis by (simp add: detect_dtype_def)
  next
    case (Some nm)
    show ?thesis
    proof (cases "find_type_name types nm")
      case (Inl e)
      with None Some assms show ?thesis by (simp add: detect_dtype_def)
    next
      case (Inr r)
      show ?thesis
      proof (cases r)
        case n: None
        with None Some Inr assms show ?thesis by (simp add: detect_dtype_def)
      next
        case s: (Some p)
        obtain code nm' where p: "p = (code, nm')" by (cases p)
        with None Some Inr s assms have i: "info1 = AList.update ''name'' nm' info"
          by (simp add: detect_dtype_def)
        from Inr s p find_type_name_keeps [of types nm code nm']
        obtain t where "list_remove t nm = Inr nm'" "\<not> endswith t '' array''" by auto
        with Some i show ?thesis
          by (simp add: array_names_update falsy_array_keys_update tags_not_array update_conv')
      qed
    qed
  qed
qed

lemma names_ending_singleton:
  "remove1 (PyStr t) xs = [] \<Longrightarrow> \<not> endswith t '' array'' \<Longrightarrow> names_ending xs = []"
  using names_ending_remove1 [of t xs] by simp

lemma detect_compression_keeps:
  assumes "detect_compression info = Inr (c, info2)"
  shows "falsy_array_keys info2 = falsy_array_keys info \<and> array_names info2 = array_names info"
proof (cases "dict_in ''zlib compression'' info")
  case True
  with assms show ?thesis
    by (auto simp add: detect_compression_def falsy_array_keys_delete array_names_delete tags_not_array)
next
  case False
  show ?thesis
  proof (cases "map_of info ''name''")
    case None
    with False assms show ?thesis
      by (auto simp add: detect_compression_def falsy_array_keys_delete array_names_delete tags_not_array)
  next
    case (Some nm)
    have k: "map_of (AList.delete ''no compression'' info) ''name'' = Some nm"
      using Some by (simp add: delete_conv')
    show ?thesis
    proof (cases "contains ''zlib compression'' nm")
      case (Inl e)
      with False Some assms show ?thesis by (simp add: detect_compression_def)
    next
      case (Inr z)
      show ?thesis
      proof (cases z)
        case True
        with False Some Inr assms obtain nm' where
          "list_remove ''zlib compression'' nm = Inr nm'" "info2 = AList.update ''name'' nm' info"
          by (auto simp add: detect_compression_def split: sum.splits)
        with Some show ?thesis
          by (simp add: falsy_array_keys_update array_names_update tags_not_array)
      next
        case z: False
        show ?thesis
        proof (cases "list_remove ''no compression'' nm")
          case (Inl e)
          with False Some Inr z assms have "info2 = AList.delete ''no compression'' info"
            by (auto simp add: detect_compression_def split: if_splits)
          then show ?thesis
            by (simp add: falsy_array_keys_delete array_names_delete tags_not_array)
        next
          case r: (Inr nm')
          from list_remove_names [OF r] obtain xs where xs: "nm = PyList xs"
            "nm' = PyList (remove1 (PyStr ''no compression'') xs)"
            by (auto simp add: tags_not_array)
          show ?thesis
          proof (cases "nm' = PyList []")
            case True
            with False Some Inr z r assms have i: "info2 =
              AList.delete ''name'' (AList.delete ''no compression'' info)"
              by (simp add: detect_compression_def)
            from True xs have "names_ending xs = []"
              by (auto intro: names_ending_singleton simp add: tags_not_array)
            with i Some xs show ?thesis
              by (simp add: falsy_array_keys_delete tags_not_array array_names_def delete_conv')
          next
            case n: False
            with False Some Inr z r assms have i: "info2 =
              AList.update ''name'' nm' (AList.delete ''no compression'' info)"
              by (simp add: detect_compression_def)
            with k r show ?thesis
              by (simp add: falsy_array_keys_update falsy_array_keys_delete
                  array_names_update array_names_delete tags_not_array)
          qed
        qed
      qed
    qed
  qed
qed

lemma store_array_rule:
  assumes "store_array info a = Inr out"
  shows "key_rule_first info out a"
proof (cases "find_array_key info")
  case (Inl e)
  with assms show ?thesis by (simp add: store_array_def)
next
  case (Inr r)
  note fk = find_array_key_falsy [OF Inr]
  show ?thesis
  proof (cases r)
    case (Some k)
    with Inr assms fk show ?thesis
      by (auto simp add: store_array_def key_rule_first_def split: list.splits)
  next
    case None
    with fk have f: "falsy_array_keys info = []" by (simp split: list.splits)
    have fb: "out = AList.update ''binary'' (PyArray a) info \<Longrightarrow> array_names info = [] \<Longrightarrow> ?thesis"
      by (simp add: key_rule_first_def f update_conv')
    show ?thesis
    proof (cases "map_of info ''name''")
      case n: None
      with None Inr assms fb show ?thesis by (simp add: store_array_def array_names_def)
    next
      case (Some nm)
      show ?thesis
      proof (cases "\<exists>knames. nm = PyList knames")
        case False
        with None Inr Some assms fb show ?thesis
          by (cases nm) (auto simp add: store_array_def array_names_def)
      next
        case True
        then obtain knames where nm: "nm = PyList knames" by blast
        show ?thesis
        proof (cases "find_array_name knames")
          case (Inl e)
          with None Inr Some nm assms show ?thesis by (simp add: store_array_def)
        next
          case r2: (Inr r2)
          note fn = find_array_name_ending [OF r2]
          show ?thesis
          proof (cases r2)
            case n2: None
            with fn have "array_names info = []"
              by (simp add: array_names_def Some nm split: list.splits)
            with None Inr Some nm r2 n2 assms fb show ?thesis by (simp add: store_array_def)
          next
            case s2: (Some val)
            with fn have "\<exists>rest. array_names info = val # rest"
              by (simp add: array_names_def Some nm split: list.splits)
            with None Inr Some nm r2 s2 assms f show ?thesis
              by (auto simp add: store_array_def key_rule_first_def)
          qed
        qed
      qed
    qed
  qed
qed

lemma key_rule_first_cong:
  "falsy_array_keys info' = falsy_array_keys info \<Longrightarrow> array_names info' = array_names info \<Longrightarrow>
   key_rule_first info' out a = key_rule_first info out a"
  unfolding key_rule_first_def by (simp split: list.splits)

text \<open>
  Claim C6, as the code has it. Whenever the body of \<^verbatim>\<open>if 'binary' in info\<close> returns,
  the result follows the rule of the first match: if the mapping has at least one own key
  ending in \<^verbatim>\<open>' array'\<close> with a false value, the first of them in iteration order
  replaces the mapping, alone with the decoded array; otherwise the first entry of the
  \<^verbatim>\<open>'name'\<close> list ending in \<^verbatim>\<open>' array'\<close> does; otherwise the array is stored under
  \<^verbatim>\<open>'binary'\<close>. The array is what lines 147 to 151 decode from the payload.
\<close>

theorem array_key_first_match:
  assumes "normalize_binary decompress info = Inr out"
  shows "\<exists>b dtype compressed array.
           map_of info ''binary'' = Some b \<and>
           decode_binary decompress b dtype compressed = Inr array \<and>
           key_rule_first info out array"
proof -
  from assms obtain dtype info1 compressed info2 b array where
    d: "detect_dtype info = Inr (dtype, info1)" and
    c: "detect_compression info1 = Inr (compressed, info2)" and
    b: "map_of info2 ''binary'' = Some b" and
    a: "decode_binary decompress b dtype compressed = Inr array" and
    s: "store_array (AList.delete ''binary'' info2) array = Inr out"
    by (auto simp add: normalize_binary_def split: sum.splits option.splits prod.splits)
  note k1 = detect_dtype_keeps [OF d] and k2 = detect_compression_keeps [OF c]
  have e1: "falsy_array_keys (AList.delete ''binary'' info2) = falsy_array_keys info"
    and e2: "array_names (AList.delete ''binary'' info2) = array_names info"
    using k1 k2 by (simp_all add: falsy_array_keys_delete array_names_delete tags_not_array)
  have "key_rule_first info out array"
    using store_array_rule [OF s] key_rule_first_cong [OF e1 e2, of out array] by blast
  moreover have "map_of info ''binary'' = Some b"
    using b k1 detect_compression_binary [OF c] by simp
  ultimately show ?thesis using a by blast
qed

lemma eval_two_keys:
  "normalize_binary Inr [(''binary'', PyStr ''AACAPw==''), (''32-bit float'', PyStr ''''),
      (''m/z array'', PyStr ''''), (''intensity array'', PyStr '''')]
   = Inr [(''m/z array'', PyArray (F32Array [0x3F800000]))]"
  by (simp add: dict_in_def normalize_binary_def detect_dtype_def types_def
      detect_compression_def decode_binary_def decode_base64_data_array_def encode_ascii_def
      b64decode_def table_a2b_base64_def frombuffer_def store_array_def endswith_def)

theorem array_key_first_match_witness:
  "normalize_binary Inr [(''binary'', PyStr ''AACAPw==''), (''32-bit float'', PyStr ''''),
      (''m/z array'', PyStr ''''), (''intensity array'', PyStr '''')]
   = Inr [(''m/z array'', PyArray (F32Array [0x3F800000]))] \<and>
   (\<exists>b dtype compressed array.
      map_of [(''binary'', PyStr ''AACAPw==''), (''32-bit float'', PyStr ''''),
              (''m/z array'', PyStr ''''), (''intensity array'', PyStr '''')] ''binary'' = Some b \<and>
      decode_binary Inr b dtype compressed = Inr array \<and>
      key_rule_first [(''binary'', PyStr ''AACAPw==''), (''32-bit float'', PyStr ''''),
              (''m/z array'', PyStr ''''), (''intensity array'', PyStr '''')]
        [(''m/z array'', PyArray (F32Array [0x3F800000]))] array)"
  using array_key_first_match [OF eval_two_keys] eval_two_keys by simp

text \<open>
  Claim C6 as stated fails: with two placeholder keys ending in \<^verbatim>\<open>' array'\<close> and no
  \<^verbatim>\<open>'name'\<close> list, the rule of exactly one key would store the array under
  \<^verbatim>\<open>'binary'\<close>; the code replaces the mapping by the first of the two keys.
\<close>

theorem array_key_exactly_one_counterexample:
  "normalize_binary Inr [(''binary'', PyStr ''AACAPw==''), (''32-bit float'', PyStr ''''),
      (''m/z array'', PyStr ''''), (''intensity array'', PyStr '''')]
   = Inr [(''m/z array'', PyArray (F32Array [0x3F800000]))] \<and>
   falsy_array_keys [(''binary'', PyStr ''AACAPw==''), (''32-bit float'', PyStr ''''),
      (''m/z array'', PyStr ''''), (''intensity array'', PyStr '''')]
   = [''m/z array'', ''intensity array''] \<and>
   \<not> key_rule_exactly_one [(''binary'', PyStr ''AACAPw==''), (''32-bit float'', PyStr ''''),
      (''m/z array'', PyStr ''''), (''intensity array'', PyStr '''')]
      [(''m/z array'', PyArray (F32Array [0x3F800000]))] (F32Array [0x3F800000])"
  by (simp add: eval_two_keys key_rule_exactly_one_def falsy_array_keys_def array_names_def
      endswith_def)

section \<open>The empty payload\<close>

lemma tagged_empty_payload:
  "get_info_smart decompress (binary_data_array '''' dt compressed ''m/z array'')
   = Inr [(''m/z array'', PyArray (empty_array dt))]"
  by (cases dt; cases compressed)
     (simp_all add: binary_data_array_def type_tag_def compression_tag_def
      dict_in_def get_info_smart_def normalize_binary_def detect_dtype_def types_def
      detect_compression_def decode_binary_def store_array_def endswith_def
      flatten_binaryDataArray_def coerce_intkeys_def)

text \<open>
  Claim C9. For each element type and each compression flag, lines 147 to 151 turn an
  empty payload into the empty array of that type, without calling the decoder, and the
  normalizer returns a tagged \<^verbatim>\<open>binaryDataArray\<close> with an empty payload as its array
  name with that empty array. The decoder itself, called on the empty text with no
  compression, returns the same array.
\<close>

theorem empty_payload_empty_array:
  "decode_binary decompress (PyStr '''') (Some dt) compressed = Inr (empty_array dt) \<and>
   array_dtype (empty_array dt) = dt \<and> array_size (empty_array dt) = 0 \<and>
   decode_base64_data_array decompress '''' dt False = Inr (empty_array dt) \<and>
   get_info_smart decompress (binary_data_array '''' dt compressed ''m/z array'')
     = Inr [(''m/z array'', PyArray (empty_array dt))]"
  using tagged_empty_payload [of decompress dt compressed]
  by (cases dt) (simp_all add: decode_binary_def empty_array_def decode_base64_data_array_def
      encode_ascii_def b64decode_def frombuffer_def)

end
